theory Spec2Isabelle
  imports Complex_Main "HOL-Library.Multiset"
begin

section \<open>Point placement for the heart collage (heart2.py)\<close>

text \<open>
  The theory embeds the two functions of \<^verbatim>\<open>heart2.py\<close> that place the images:
  \<^verbatim>\<open>calculate_overlap_area\<close> and the selection loops of
  \<^verbatim>\<open>generate_solid_heart_points\<close>. It does so twice.

  The first embedding computes with unbounded integers and exact reals. It carries the
  properties that rest on the structure of the loops: which candidates are tested and
  kept, how many points are returned, what the fallback loop appends.

  The second embedding (the definitions named \<open>np_...\<close>) computes as numpy does: pixel
  coordinates are 64-bit integers that wrap around, a Python integer that meets one of
  them must fit in 64 bits or \<^verbatim>\<open>OverflowError\<close> is raised, and the overlap
  percentage is a binary64 number, rounded after the division and after the
  multiplication. It carries the properties about the value
  \<^verbatim>\<open>calculate_overlap_area\<close> returns and about raising.
\<close>

subsection \<open>Errors and division\<close>

text \<open>
  The operations of the two functions that can raise: the true division \<^verbatim>\<open>/\<close> of
  Python integers raises \<^verbatim>\<open>ZeroDivisionError\<close> on a zero divisor; the conversion of
  a Python integer to a 64-bit numpy integer or to a float raises
  \<^verbatim>\<open>OverflowError\<close> when the integer is out of range.
\<close>

datatype error = ZeroDivisionError | OverflowError

text \<open>
  In the first embedding the quotient is the exact real number; the binary64 quotient of
  the second embedding is \<open>np_true_divide\<close> below.
\<close>

definition py_truediv :: "int \<Rightarrow> int \<Rightarrow> error + real" where
  "py_truediv a b = (if b = 0 then Inl ZeroDivisionError else Inr (real_of_int a / real_of_int b))"

subsection \<open>Rectangles and their overlap\<close>

text \<open>A rectangle is the 4-tuple \<^verbatim>\<open>(left, top, right, bottom)\<close> the source indexes with 0..3.\<close>

type_synonym rect = "int \<times> int \<times> int \<times> int"

fun calculate_overlap_area :: "rect \<Rightarrow> rect \<Rightarrow> error + real" where
  "calculate_overlap_area (a0, a1, a2, a3) (b0, b1, b2, b3) =
     (let x1 = max a0 b0; y1 = max a1 b1;
          x2 = min a2 b2; y2 = min a3 b3
      in if x2 < x1 \<or> y2 < y1 then Inr 0
         else
           let overlap_area = (x2 - x1) * (y2 - y1);
               min_area = min ((a2 - a0) * (a3 - a1)) ((b2 - b0) * (b3 - b1))
           in if min_area > 0
              then (case py_truediv overlap_area min_area of
                      Inl e \<Rightarrow> Inl e
                    | Inr q \<Rightarrow> Inr (q * 100))
              else Inr 0)"

text \<open>
  The vocabulary of the specification, written from its words: the area of a rectangle,
  the area of the intersection of two rectangles (zero when they share no area), and the
  relations "disjoint" and "contains".
\<close>

fun area :: "rect \<Rightarrow> int" where
  "area (a0, a1, a2, a3) = (a2 - a0) * (a3 - a1)"

fun intersection_area :: "rect \<Rightarrow> rect \<Rightarrow> int" where
  "intersection_area (a0, a1, a2, a3) (b0, b1, b2, b3) =
     max 0 (min a2 b2 - max a0 b0) * max 0 (min a3 b3 - max a1 b1)"

fun disjoint :: "rect \<Rightarrow> rect \<Rightarrow> bool" where
  "disjoint (a0, a1, a2, a3) (b0, b1, b2, b3) \<longleftrightarrow> a2 < b0 \<or> b2 < a0 \<or> a3 < b1 \<or> b3 < a1"

fun contains :: "rect \<Rightarrow> rect \<Rightarrow> bool" where
  "contains (a0, a1, a2, a3) (b0, b1, b2, b3) \<longleftrightarrow> a0 \<le> b0 \<and> a1 \<le> b1 \<and> b2 \<le> a2 \<and> b3 \<le> a3"

fun proper :: "rect \<Rightarrow> bool" where
  "proper (a0, a1, a2, a3) \<longleftrightarrow> a0 < a2 \<and> a1 < a3"

fun rect_width :: "rect \<Rightarrow> int" where
  "rect_width (a0, a1, a2, a3) = a2 - a0"

fun rect_height :: "rect \<Rightarrow> int" where
  "rect_height (a0, a1, a2, a3) = a3 - a1"

fun rect_center :: "rect \<Rightarrow> real \<times> real" where
  "rect_center (a0, a1, a2, a3) = (real_of_int (a0 + a2) / 2, real_of_int (a1 + a3) / 2)"

subsection \<open>The occupancy mask and its true pixels\<close>

text \<open>
  Lines 24 to 36 draw the heart polygon with PIL into an 8-bit image; the image is read
  back as \<^verbatim>\<open>mask_array\<close>, with one row per \<open>y\<close> and one column per \<open>x\<close>.
  The selection only reads that array, so the array is the input of the model: a list of rows
  of pixel values.

  \<^verbatim>\<open>np.column_stack(np.where(mask_array > 0))\<close> lists the \<open>(row, column)\<close> pairs of
  the positive entries in row-major order.
\<close>

type_synonym mask = "nat list list"

type_synonym pixel = "int \<times> int"

fun where_row :: "int \<Rightarrow> int \<Rightarrow> nat list \<Rightarrow> pixel list" where
  "where_row y x [] = []"
| "where_row y x (v # vs) = (if v > 0 then [(y, x)] else []) @ where_row y (x + 1) vs"

fun where_rows :: "int \<Rightarrow> mask \<Rightarrow> pixel list" where
  "where_rows y [] = []"
| "where_rows y (r # rs) = where_row y 0 r @ where_rows (y + 1) rs"

definition heart_pixels_of :: "mask \<Rightarrow> pixel list" where
  "heart_pixels_of mask_array = where_rows 0 mask_array"

text \<open>The number of true pixels of the mask, counted on the mask itself.\<close>

definition true_pixels :: "mask \<Rightarrow> nat" where
  "true_pixels mask_array = sum_list (map (\<lambda>r. length (filter (\<lambda>v. v > 0) r)) mask_array)"

text \<open>
  \<^verbatim>\<open>np.random.shuffle\<close> permutes the array with the process-wide random generator. The
  model takes the permutation as an argument: \<open>shuffle k xs\<close> is the outcome of the
  \<open>k\<close>-th call (0 before the primary loop, 1 before the fallback loop) on \<open>xs\<close>.
\<close>

type_synonym shuffle = "nat \<Rightarrow> pixel list \<Rightarrow> pixel list"

definition is_shuffle :: "shuffle \<Rightarrow> bool" where
  "is_shuffle sh \<longleftrightarrow> (\<forall>k xs. mset (sh k xs) = mset xs)"

definition keep_order :: shuffle where
  "keep_order k xs = xs"

subsection \<open>The primary (constrained) loop\<close>

text \<open>Line 50: the footprint rectangle built for the candidate \<open>(y, x)\<close>.\<close>

definition rect1_of :: "int \<Rightarrow> int \<Rightarrow> int \<Rightarrow> rect" where
  "rect1_of img_size x y =
     (x - img_size div 2, y - img_size div 2, x + img_size div 2, y + img_size div 2)"

text \<open>Lines 53 to 56: the scan of the placed rectangles, left at the first violation.\<close>

fun too_much_overlap :: "rect \<Rightarrow> real \<Rightarrow> rect list \<Rightarrow> error + bool" where
  "too_much_overlap rect1 max_overlap_percent [] = Inr False"
| "too_much_overlap rect1 max_overlap_percent (rect2 # rs) =
     (case calculate_overlap_area rect1 rect2 of
        Inl e \<Rightarrow> Inl e
      | Inr v \<Rightarrow> if v > max_overlap_percent then Inr True
                else too_much_overlap rect1 max_overlap_percent rs)"

text \<open>Lines 63 and 64: the candidates kept by the density pruning around \<open>(y, x)\<close>.\<close>

definition prune :: "real \<Rightarrow> int \<Rightarrow> int \<Rightarrow> pixel list \<Rightarrow> pixel list" where
  "prune min_distance y x hp =
     filter (\<lambda>(py, px). sqrt (real_of_int ((py - y)\<^sup>2 + (px - x)\<^sup>2)) > min_distance * 0.3) hp"

text \<open>
  The variables of the selection. \<open>heart_pixels\<close> is the variable of that name: line 64
  binds it to a new, filtered array, while the \<^verbatim>\<open>for\<close> statement of line 46 has
  evaluated it once and keeps iterating over the array it got then. \<open>tested\<close> is not a
  variable of the program: it logs the candidates for which the body of the primary loop
  was entered (those for which \<open>rect1\<close> was built), in order.
\<close>

record sel_state =
  selected_points :: "pixel list"
  placed_rectangles :: "rect list"
  heart_pixels :: "pixel list"
  tested :: "pixel list"

text \<open>Lines 50 to 64: the body of the primary loop for the candidate \<open>(y, x)\<close>.\<close>

definition primary_body :: "int \<Rightarrow> real \<Rightarrow> real \<Rightarrow> sel_state \<Rightarrow> pixel \<Rightarrow> error + sel_state" where
  "primary_body img_size max_overlap_percent min_distance st c =
     (case c of (y, x) \<Rightarrow>
        let rect1 = rect1_of img_size x y;
            st0 = st\<lparr>tested := tested st @ [(y, x)]\<rparr>
        in case too_much_overlap rect1 max_overlap_percent (placed_rectangles st0) of
             Inl e \<Rightarrow> Inl e
           | Inr too_much \<Rightarrow>
               if \<not> too_much then
                 let st1 = st0\<lparr>selected_points := selected_points st0 @ [(x, y)],
                                placed_rectangles := placed_rectangles st0 @ [rect1]\<rparr>
                 in if length (selected_points st1) mod 5 = 0
                    then Inr (st1\<lparr>heart_pixels := prune min_distance y x (heart_pixels st1)\<rparr>)
                    else Inr st1
               else Inr st0)"

text \<open>
  Lines 46 to 64: the loop runs over the array bound at its start (the last argument),
  whatever \<open>heart_pixels\<close> is rebound to meanwhile; line 47 leaves it once enough points
  are selected.
\<close>

fun primary_loop :: "int \<Rightarrow> int \<Rightarrow> real \<Rightarrow> real \<Rightarrow> sel_state \<Rightarrow> pixel list \<Rightarrow> error + sel_state" where
  "primary_loop num_points img_size max_overlap_percent min_distance st [] = Inr st"
| "primary_loop num_points img_size max_overlap_percent min_distance st (c # cs) =
     (if int (length (selected_points st)) \<ge> num_points then Inr st
      else case primary_body img_size max_overlap_percent min_distance st c of
             Inl e \<Rightarrow> Inl e
           | Inr st' \<Rightarrow> primary_loop num_points img_size max_overlap_percent min_distance st' cs)"

text \<open>Lines 38 to 64: the state at the end of the primary phase.\<close>

definition primary_phase :: "shuffle \<Rightarrow> mask \<Rightarrow> int \<Rightarrow> int \<Rightarrow> real \<Rightarrow> error + sel_state" where
  "primary_phase shuffle mask_array num_points img_size max_overlap_percent =
     (let hp = shuffle 0 (heart_pixels_of mask_array);
          min_distance = real_of_int img_size * (1 - max_overlap_percent / 100) * 0.8
      in primary_loop num_points img_size max_overlap_percent min_distance
           \<lparr>selected_points = [], placed_rectangles = [], heart_pixels = hp, tested = []\<rparr> hp)"

subsection \<open>The fallback loop and the whole selection\<close>

text \<open>Lines 70 to 74.\<close>

fun fallback_loop :: "int \<Rightarrow> int \<Rightarrow> int \<Rightarrow> int \<Rightarrow> pixel list \<Rightarrow> pixel list \<Rightarrow> pixel list" where
  "fallback_loop num_points width height img_size sel [] = sel"
| "fallback_loop num_points width height img_size sel ((y, x) # cs) =
     (if int (length sel) \<ge> num_points then sel
      else if 0 < x \<and> x < width - img_size \<and> 0 < y \<and> y < height - img_size
           then fallback_loop num_points width height img_size (sel @ [(x, y)]) cs
           else fallback_loop num_points width height img_size sel cs)"

text \<open>
  Lines 38 to 76 of \<^verbatim>\<open>generate_solid_heart_points\<close>, on the mask array and the
  outcomes of the two shuffles.
\<close>

definition generate_solid_heart_points ::
  "shuffle \<Rightarrow> mask \<Rightarrow> int \<Rightarrow> int \<Rightarrow> int \<Rightarrow> int \<Rightarrow> real \<Rightarrow> error + pixel list" where
  "generate_solid_heart_points shuffle mask_array num_points width height img_size max_overlap_percent =
     (case primary_phase shuffle mask_array num_points img_size max_overlap_percent of
        Inl e \<Rightarrow> Inl e
      | Inr st \<Rightarrow>
          if int (length (selected_points st)) < num_points
          then Inr (fallback_loop num_points width height img_size (selected_points st)
                      (shuffle 1 (heart_pixels_of mask_array)))
          else Inr (selected_points st))"

text \<open>The containment test of line 73, on a candidate \<open>(y, x)\<close>.\<close>

fun inside_canvas :: "int \<Rightarrow> int \<Rightarrow> int \<Rightarrow> pixel \<Rightarrow> bool" where
  "inside_canvas width height img_size (y, x) \<longleftrightarrow>
     0 < x \<and> x < width - img_size \<and> 0 < y \<and> y < height - img_size"


section \<open>The selection in machine arithmetic\<close>

subsection \<open>64-bit integers and binary64 numbers\<close>

text \<open>
  The entries of \<^verbatim>\<open>heart_pixels\<close> are numpy \<^verbatim>\<open>int64\<close> scalars, and so is every
  number computed from them. Their arithmetic wraps around modulo \<open>2^64\<close> (numpy warns and
  goes on).
\<close>

definition int64_range :: "int \<Rightarrow> bool" where
  "int64_range v \<longleftrightarrow> - (2 ^ 63) \<le> v \<and> v < 2 ^ 63"

definition wrap64 :: "int \<Rightarrow> int" where
  "wrap64 v = (v + 2 ^ 63) mod 2 ^ 64 - 2 ^ 63"

text \<open>
  An \<^verbatim>\<open>int64\<close> scalar combined with a Python integer: the Python integer is converted
  to \<^verbatim>\<open>int64\<close> first, which raises when it does not fit (numpy 2).
\<close>

definition np_int64_of_py :: "int \<Rightarrow> error + int" where
  "np_int64_of_py v = (if int64_range v then Inr v else Inl OverflowError)"

definition np_sub_py :: "int \<Rightarrow> int \<Rightarrow> error + int" where
  "np_sub_py x v = (case np_int64_of_py v of Inl e \<Rightarrow> Inl e | Inr v' \<Rightarrow> Inr (wrap64 (x - v')))"

definition np_add_py :: "int \<Rightarrow> int \<Rightarrow> error + int" where
  "np_add_py x v = (case np_int64_of_py v of Inl e \<Rightarrow> Inl e | Inr v' \<Rightarrow> Inr (wrap64 (x + v')))"

text \<open>
  A binary64 number is a real number here. \<open>round64 x\<close> is the binary64 number nearest to
  \<open>x\<close>, ties going to the even significand: 53 significant bits, and a spacing of
  \<open>2^-1074\<close> below \<open>2^-1022\<close>. Magnitudes from \<open>2^1024 - 2^970\<close> on, which round to
  infinity, do not arise below: the operands of the division are at most \<open>2^63\<close> and the
  quotient is multiplied by 100.
\<close>

definition round_half_even :: "real \<Rightarrow> int" where
  "round_half_even x =
     (let f = \<lfloor>x\<rfloor>; r = x - real_of_int f
      in if r < 1 / 2 then f else if r > 1 / 2 then f + 1 else if even f then f else f + 1)"

definition float_exponent :: "real \<Rightarrow> int" where
  "float_exponent x = max (- 1022) \<lfloor>log 2 \<bar>x\<bar>\<rfloor>"

definition round64 :: "real \<Rightarrow> real" where
  "round64 x =
     (if x = 0 then 0
      else let q = 2 powi (float_exponent x - 52)
           in real_of_int (round_half_even (x / q)) * q)"


text \<open>
  \<^verbatim>\<open>overlap_area / min_area\<close> on two \<^verbatim>\<open>int64\<close> scalars: both are converted to
  binary64 and divided. (For a zero divisor numpy returns an infinity or a NaN, which has
  no counterpart here; the only division of the program is guarded by
  \<^verbatim>\<open>min_area > 0\<close>.)
\<close>

definition np_true_divide :: "int \<Rightarrow> int \<Rightarrow> real" where
  "np_true_divide a b = round64 (round64 (real_of_int a) / round64 (real_of_int b))"

subsection \<open>The two functions\<close>

text \<open>Lines 8 to 19, on rectangles of \<^verbatim>\<open>int64\<close> scalars.\<close>

fun np_calculate_overlap_area :: "rect \<Rightarrow> rect \<Rightarrow> error + real" where
  "np_calculate_overlap_area (a0, a1, a2, a3) (b0, b1, b2, b3) =
     (let x1 = max a0 b0; y1 = max a1 b1;
          x2 = min a2 b2; y2 = min a3 b3
      in if x2 < x1 \<or> y2 < y1 then Inr 0
         else
           let overlap_area = wrap64 (wrap64 (x2 - x1) * wrap64 (y2 - y1));
               min_area = min (wrap64 (wrap64 (a2 - a0) * wrap64 (a3 - a1)))
                              (wrap64 (wrap64 (b2 - b0) * wrap64 (b3 - b1)))
           in if min_area > 0
              then Inr (round64 (np_true_divide overlap_area min_area * 100))
              else Inr 0)"

text \<open>
  Line 50: \<^verbatim>\<open>img_size // 2\<close> is a Python integer, \<open>x\<close> and \<open>y\<close> are
  \<^verbatim>\<open>int64\<close> scalars; the four entries are computed from left to right.
\<close>

definition np_rect1_of :: "int \<Rightarrow> int \<Rightarrow> int \<Rightarrow> error + rect" where
  "np_rect1_of img_size x y =
     (case np_sub_py x (img_size div 2) of Inl e \<Rightarrow> Inl e | Inr a0 \<Rightarrow>
      case np_sub_py y (img_size div 2) of Inl e \<Rightarrow> Inl e | Inr a1 \<Rightarrow>
      case np_add_py x (img_size div 2) of Inl e \<Rightarrow> Inl e | Inr a2 \<Rightarrow>
      case np_add_py y (img_size div 2) of Inl e \<Rightarrow> Inl e | Inr a3 \<Rightarrow>
      Inr (a0, a1, a2, a3))"







text \<open>A rectangle whose coordinates are small enough for its arithmetic to be exact.\<close>

fun small :: "rect \<Rightarrow> bool" where
  "small (a0, a1, a2, a3) \<longleftrightarrow>
     \<bar>a0\<bar> \<le> 2 ^ 25 \<and> \<bar>a1\<bar> \<le> 2 ^ 25 \<and> \<bar>a2\<bar> \<le> 2 ^ 25 \<and> \<bar>a3\<bar> \<le> 2 ^ 25"

section \<open>Properties of the overlap percentage\<close>

lemma sqrt_gt_iff: "0 \<le> d \<Longrightarrow> sqrt d > m \<longleftrightarrow> m < 0 \<or> d > m\<^sup>2"
proof (cases "m < 0")
  case True
  assume "0 \<le> d"
  then have "0 \<le> sqrt d" by simp
  with True show ?thesis by linarith
next
  case False
  assume d: "0 \<le> d"
  from False have m: "0 \<le> m" by simp
  have "sqrt d > m \<longleftrightarrow> sqrt d > sqrt (m\<^sup>2)" using m by simp
  also have "\<dots> \<longleftrightarrow> d > m\<^sup>2" by (rule real_sqrt_less_iff)
  finally show ?thesis using False by simp
qed

text \<open>The pruning test without the square root, for evaluation.\<close>

lemma prune_code [code]:
  "prune min_distance y x hp =
     filter (\<lambda>(py, px). min_distance * 0.3 < 0 \<or>
               real_of_int ((py - y)\<^sup>2 + (px - x)\<^sup>2) > (min_distance * 0.3)\<^sup>2) hp"
proof -
  have *: "(sqrt (real_of_int ((py - y)\<^sup>2 + (px - x)\<^sup>2)) > t) =
           (t < 0 \<or> real_of_int ((py - y)\<^sup>2 + (px - x)\<^sup>2) > t\<^sup>2)" for py px t
    by (rule sqrt_gt_iff) simp
  show ?thesis unfolding prune_def * ..
qed


lemma calculate_overlap_area_total:
  "\<exists>v. calculate_overlap_area r1 r2 = Inr v"
  by (cases r1; cases r2) (auto simp: Let_def py_truediv_def)

section \<open>The loops return, and what they keep\<close>

lemma too_much_overlap_total: "\<exists>b. too_much_overlap r m rs = Inr b"
proof (induction rs)
  case Nil
  show ?case by auto
next
  case (Cons r2 rs)
  obtain v where "calculate_overlap_area r r2 = Inr v"
    using calculate_overlap_area_total by blast
  with Cons show ?case by auto
qed


lemma primary_body_total: "\<exists>st'. primary_body s m md st c = Inr st'"
proof -
  obtain y x where c: "c = (y, x)" by (cases c)
  obtain b where "too_much_overlap (rect1_of s x y) m (placed_rectangles st) = Inr b"
    using too_much_overlap_total by blast
  then show ?thesis by (simp add: primary_body_def c Let_def)
qed

lemma primary_loop_total: "\<exists>st'. primary_loop n s m md st cs = Inr st'"
proof (induction cs arbitrary: st)
  case Nil
  show ?case by simp
next
  case (Cons c cs)
  obtain st1 where "primary_body s m md st c = Inr st1"
    using primary_body_total by blast
  with Cons show ?case by simp
qed

lemma primary_phase_total: "\<exists>st. primary_phase sh mk n s m = Inr st"
  by (simp add: primary_phase_def Let_def primary_loop_total)

lemma fallback_loop_eq:
  "fallback_loop n w h s sel cs =
     sel @ take (nat (n - int (length sel)))
             (map (\<lambda>(y, x). (x, y)) (filter (inside_canvas w h s) cs))"
proof (induction cs arbitrary: sel)
  case Nil
  show ?case by simp
next
  case (Cons c cs)
  obtain y x where c: "c = (y, x)" by (cases c)
  show ?case
  proof (cases "int (length sel) \<ge> n")
    case True
    then show ?thesis by (simp add: c)
  next
    case False
    then have k: "nat (n - int (length sel)) = Suc (nat (n - int (Suc (length sel))))"
      by simp
    show ?thesis using False
      by (simp add: c Cons.IH k del: of_nat_Suc)
  qed
qed

section \<open>The overlap percentage and the footprint rectangle\<close>

lemma calculate_overlap_area_eq:
  "calculate_overlap_area (a0, a1, a2, a3) (b0, b1, b2, b3) =
     Inr (if min a2 b2 < max a0 b0 \<or> min a3 b3 < max a1 b1 then 0
          else if 0 < (a2 - a0) * (a3 - a1) \<and> 0 < (b2 - b0) * (b3 - b1)
          then real_of_int ((min a2 b2 - max a0 b0) * (min a3 b3 - max a1 b1)) /
               real_of_int (min ((a2 - a0) * (a3 - a1)) ((b2 - b0) * (b3 - b1))) * 100
          else 0)"
  by (auto simp: Let_def py_truediv_def)

text \<open>
  Claim C10. The division of \<^verbatim>\<open>calculate_overlap_area\<close> is guarded: the function
  returns a number for every pair of rectangles and never raises
  \<^verbatim>\<open>ZeroDivisionError\<close>; whenever the smaller of the two areas is zero or negative it
  returns 0; in particular a zero-area rectangle compared with itself gives 0, not 100.
\<close>

theorem calculate_overlap_area_guarded:
  "(\<exists>v. calculate_overlap_area r1 r2 = Inr v) \<and>
   (min (area r1) (area r2) \<le> 0 \<longrightarrow> calculate_overlap_area r1 r2 = Inr 0) \<and>
   (area r1 = 0 \<longrightarrow> calculate_overlap_area r1 r1 = Inr 0 \<and> calculate_overlap_area r1 r1 \<noteq> Inr 100)"
proof (intro conjI impI)
  show "\<exists>v. calculate_overlap_area r1 r2 = Inr v" by (rule calculate_overlap_area_total)
next
  assume h: "min (area r1) (area r2) \<le> 0"
  obtain a0 a1 a2 a3 where r1: "r1 = (a0, a1, a2, a3)" by (cases r1)
  obtain b0 b1 b2 b3 where r2: "r2 = (b0, b1, b2, b3)" by (cases r2)
  from h have n: "\<not> (0 < (a2 - a0) * (a3 - a1) \<and> 0 < (b2 - b0) * (b3 - b1))"
    unfolding r1 r2 area.simps by linarith
  show "calculate_overlap_area r1 r2 = Inr 0"
    by (simp only: r1 r2 calculate_overlap_area_eq n if_False if_cancel)
next
  assume h: "area r1 = 0"
  obtain a0 a1 a2 a3 where r1: "r1 = (a0, a1, a2, a3)" by (cases r1)
  from h have n: "\<not> (0 < (a2 - a0) * (a3 - a1) \<and> 0 < (a2 - a0) * (a3 - a1))"
    unfolding r1 area.simps by linarith
  have "calculate_overlap_area r1 r1 = Inr 0"
    by (simp only: r1 calculate_overlap_area_eq n if_False if_cancel)
  then show "calculate_overlap_area r1 r1 = Inr 0" "calculate_overlap_area r1 r1 \<noteq> Inr 100"
    by simp_all
qed

theorem calculate_overlap_area_guarded_witness:
  "min (area (3, 4, 3, 9)) (area (0, 0, 5, 5)) \<le> 0 \<and>
   calculate_overlap_area (3, 4, 3, 9) (0, 0, 5, 5) = Inr 0 \<and>
   area (3, 4, 3, 9) = 0 \<and>
   calculate_overlap_area (3, 4, 3, 9) (3, 4, 3, 9) = Inr 0"
  using calculate_overlap_area_guarded [of "(3, 4, 3, 9)" "(0, 0, 5, 5)"]
  by simp

text \<open>
  Claim C3 as stated ("for every pair of axis-aligned rectangles ... for identical
  rectangles it returns 100") fails on a rectangle without area, such as the footprint the
  primary loop builds for \<^verbatim>\<open>img_size = 1\<close> at the pixel \<open>(5, 5)\<close>: the guard
  \<^verbatim>\<open>if min_area > 0 else 0\<close> answers 0, in exact and in machine arithmetic alike.
\<close>

theorem identical_degenerate_counterexample:
  "proper (5, 5, 5, 5) = False \<and> calculate_overlap_area (rect1_of 1 5 5) (rect1_of 1 5 5) \<noteq> Inr 100 \<and>
   np_rect1_of 1 5 5 = Inr (5, 5, 5, 5) \<and>
   np_calculate_overlap_area (5, 5, 5, 5) (5, 5, 5, 5) = Inr 0"
  by (simp add: rect1_of_def calculate_overlap_area_eq np_rect1_of_def np_sub_py_def np_add_py_def
      np_int64_of_py_def int64_range_def wrap64_def Let_def
      del: calculate_overlap_area.simps)

lemma area_mono:
  assumes "a0 \<le> b0" "a1 \<le> b1" "b2 \<le> a2" "b3 \<le> a3" "b0 < b2" "b1 < b3"
  shows "(b2 - b0) * (b3 - b1) \<le> (a2 - a0) * (a3 - (a1::int))"
  using assms by (intro mult_mono) auto

text \<open>
  Claim C9 as stated ("for every positive integer img_size, its width and height both
  equal img_size") fails for an odd size: line 50 takes \<^verbatim>\<open>img_size // 2\<close> on each
  side, so the box of \<^verbatim>\<open>img_size = 3\<close> is 2 wide and 2 high.
\<close>

theorem odd_img_size_counterexample:
  "rect1_of 3 10 10 = (9, 9, 11, 11) \<and> rect_width (rect1_of 3 10 10) \<noteq> 3 \<and>
   rect_height (rect1_of 3 10 10) \<noteq> 3"
  by (simp add: rect1_of_def)

text \<open>
  Claim C9, amended. The footprint rectangle built at line 50 for the point \<open>(x, y)\<close>
  is centered at \<open>(x, y)\<close> and is a square of side \<open>2 * (img_size div 2)\<close>: the side is
  \<open>img_size\<close> when \<open>img_size\<close> is even and \<open>img_size - 1\<close> when it is odd.
\<close>

theorem rect1_of_shape:
  "rect_width (rect1_of img_size x y) = 2 * (img_size div 2) \<and>
   rect_height (rect1_of img_size x y) = 2 * (img_size div 2) \<and>
   rect_center (rect1_of img_size x y) = (real_of_int x, real_of_int y) \<and>
   (even img_size \<longrightarrow> rect_width (rect1_of img_size x y) = img_size \<and>
                       rect_height (rect1_of img_size x y) = img_size) \<and>
   (odd img_size \<longrightarrow> rect_width (rect1_of img_size x y) = img_size - 1 \<and>
                      rect_height (rect1_of img_size x y) = img_size - 1)"
  by (auto simp: rect1_of_def elim!: evenE oddE)

theorem rect1_of_shape_witness:
  "even (160::int) \<and> rect1_of 160 900 700 = (820, 620, 980, 780) \<and>
   rect_width (rect1_of 160 900 700) = 160 \<and> rect_height (rect1_of 160 900 700) = 160 \<and>
   rect_center (rect1_of 160 900 700) = (900, 700) \<and>
   odd (161::int) \<and> rect_width (rect1_of 161 900 700) = 160"
  using rect1_of_shape [of 160 900 700] rect1_of_shape [of 161 900 700]
  by (simp add: rect1_of_def)

section \<open>The selection loops\<close>

lemma primary_body_cases:
  assumes "primary_body s m md st (y, x) = Inr st'"
  shows "tested st' = tested st @ [(y, x)] \<and>
    ((selected_points st' = selected_points st \<and>
      placed_rectangles st' = placed_rectangles st) \<or>
     (selected_points st' = selected_points st @ [(x, y)] \<and>
      placed_rectangles st' = placed_rectangles st @ [rect1_of s x y] \<and>
      too_much_overlap (rect1_of s x y) m (placed_rectangles st) = Inr False))"
  using assms
  by (auto simp: primary_body_def Let_def split: sum.splits if_splits)

lemma primary_loop_invariant:
  assumes "primary_loop n s m md st cs = Inr st'" and "P st"
    and step: "\<And>st c st1. P st \<Longrightarrow> int (length (selected_points st)) < n \<Longrightarrow>
                 primary_body s m md st c = Inr st1 \<Longrightarrow> P st1"
  shows "P st'"
  using assms(1,2)
proof (induction cs arbitrary: st)
  case Nil
  then show ?case by simp
next
  case (Cons c cs)
  show ?case
  proof (cases "int (length (selected_points st)) \<ge> n")
    case True
    with Cons.prems show ?thesis by simp
  next
    case False
    obtain st1 where b: "primary_body s m md st c = Inr st1"
      using primary_body_total by blast
    with False Cons.prems have l: "primary_loop n s m md st1 cs = Inr st'" by simp
    from False have "int (length (selected_points st)) < n" by simp
    from step [OF Cons.prems(2) this b] have "P st1" .
    with l show ?thesis by (rule Cons.IH)
  qed
qed

lemma primary_loop_bounds:
  assumes "primary_loop n s m md st cs = Inr st'"
  shows "length (selected_points st') \<le> length (selected_points st) + length cs \<and>
         (\<exists>k\<le>length cs. tested st' = tested st @ take k cs)"
  using assms
proof (induction cs arbitrary: st)
  case Nil
  then show ?case by simp
next
  case (Cons c cs)
  show ?case
  proof (cases "int (length (selected_points st)) \<ge> n")
    case True
    with Cons.prems have "st' = st" by simp
    then show ?thesis by (auto intro: exI [of _ 0])
  next
    case False
    obtain y x where c: "c = (y, x)" by (cases c)
    obtain st1 where b: "primary_body s m md st (y, x) = Inr st1"
      using primary_body_total by blast
    with False Cons.prems c have l: "primary_loop n s m md st1 cs = Inr st'" by simp
    from primary_body_cases [OF b]
    have t: "tested st1 = tested st @ [c]"
      and n1: "length (selected_points st1) \<le> Suc (length (selected_points st))"
      by (auto simp: c)
    from Cons.IH [OF l] obtain k where
      k: "k \<le> length cs" "tested st' = tested st1 @ take k cs"
      and n2: "length (selected_points st') \<le> length (selected_points st1) + length cs"
      by blast
    have "tested st' = tested st @ take (Suc k) (c # cs)" using k t by simp
    moreover have "Suc k \<le> length (c # cs)" using k by simp
    ultimately have "\<exists>k\<le>length (c # cs). tested st' = tested st @ take k (c # cs)" by blast
    with n1 n2 show ?thesis by simp
  qed
qed





text \<open>The equations that evaluate a run of the selection on a concrete mask.\<close>

lemmas run_simps = primary_phase_def generate_solid_heart_points_def heart_pixels_of_def
  keep_order_def primary_body_def rect1_of_def Let_def py_truediv_def prune_code power2_eq_square


lemma primary_phase_count:
  assumes "0 \<le> n" and "primary_phase sh mask_array n s m = Inr st"
  shows "int (length (selected_points st)) \<le> n"
proof -
  from assms(2) obtain md st0 cs where l: "primary_loop n s m md st0 cs = Inr st"
    and st0: "selected_points st0 = []"
    by (simp add: primary_phase_def Let_def)
  have "int (length (selected_points st0)) \<le> n" using assms(1) st0 by simp
  with l show ?thesis
  proof (rule primary_loop_invariant)
    fix st c st1
    assume lt: "int (length (selected_points st)) < n"
      and b: "primary_body s m md st c = Inr st1"
    obtain y x where c: "c = (y, x)" by (cases c)
    from b c have "primary_body s m md st (y, x) = Inr st1" by simp
    from primary_body_cases [OF this] lt
    show "int (length (selected_points st1)) \<le> n" by auto
  qed
qed

lemma fallback_loop_length:
  "int (length sel) \<le> n \<Longrightarrow> int (length (fallback_loop n w h s sel cs)) \<le> n"
  by (simp add: fallback_loop_eq)

text \<open>
  Claim C2. For a requested count \<open>n \<ge> 0\<close> the selection returns a list of at most
  \<open>n\<close> points, for every mask and every outcome of the shuffles; for \<open>n = 0\<close> the
  list is empty.
\<close>

theorem generate_count_upper_bound:
  assumes "0 \<le> n"
  shows "\<exists>pts. generate_solid_heart_points sh mask_array n w h s m = Inr pts \<and>
           int (length pts) \<le> n \<and> (n = 0 \<longrightarrow> pts = [])"
proof -
  obtain st where p: "primary_phase sh mask_array n s m = Inr st"
    using primary_phase_total by blast
  from primary_phase_count [OF assms p] have c: "int (length (selected_points st)) \<le> n" .
  define pts where "pts = (if int (length (selected_points st)) < n
     then fallback_loop n w h s (selected_points st) (sh 1 (heart_pixels_of mask_array))
     else selected_points st)"
  have g: "generate_solid_heart_points sh mask_array n w h s m = Inr pts"
    by (simp add: generate_solid_heart_points_def p pts_def)
  have b: "int (length pts) \<le> n"
    using c fallback_loop_length [OF c] by (simp add: pts_def)
  then have "n = 0 \<longrightarrow> pts = []" by auto
  with g b show ?thesis by blast
qed

theorem generate_count_upper_bound_witness:
  "(0::int) \<le> 3 \<and>
   generate_solid_heart_points keep_order [[0, 0, 0, 0], [0, 255, 255, 0], [0, 255, 0, 0], [0, 0, 0, 0]]
     3 4 4 2 20 = Inr [(1, 1), (1, 1)] \<and>
   generate_solid_heart_points keep_order [[0, 0, 0, 0], [0, 255, 255, 0], [0, 255, 0, 0], [0, 0, 0, 0]]
     0 4 4 2 20 = Inr []"
proof -
  have e: "generate_solid_heart_points keep_order
      [[0, 0, 0, 0], [0, 255, 255, 0], [0, 255, 0, 0], [0, 0, 0, 0]] 3 4 4 2 20 =
      Inr [(1, 1), (1, 1)]"
    by (simp add: run_simps)
  have z: "(0::int) \<le> 0" by simp
  from generate_count_upper_bound [OF z, of keep_order
      "[[0, 0, 0, 0], [0, 255, 255, 0], [0, 255, 0, 0], [0, 0, 0, 0]]" 4 4 2 20]
  have "generate_solid_heart_points keep_order
      [[0, 0, 0, 0], [0, 255, 255, 0], [0, 255, 0, 0], [0, 0, 0, 0]] 0 4 4 2 20 = Inr []"
    by auto
  with e show ?thesis by simp
qed

lemma length_where_row: "length (where_row y x r) = length (filter (\<lambda>v. v > 0) r)"
  by (induction r arbitrary: x) simp_all

lemma length_where_rows:
  "length (where_rows y mk) = sum_list (map (\<lambda>r. length (filter (\<lambda>v. v > 0) r)) mk)"
  by (induction mk arbitrary: y) (simp_all add: length_where_row)

lemma length_heart_pixels_of: "length (heart_pixels_of mask_array) = true_pixels mask_array"
  by (simp add: heart_pixels_of_def true_pixels_def length_where_rows)

lemma is_shuffle_length: "is_shuffle sh \<Longrightarrow> length (sh k xs) = length xs"
  unfolding is_shuffle_def by (metis size_mset)

lemma is_shuffle_filter_length:
  "is_shuffle sh \<Longrightarrow> length (filter P (sh k xs)) = length (filter P xs)"
  unfolding is_shuffle_def by (metis mset_filter size_mset)

lemma generate_eq:
  assumes "primary_phase sh mask_array n s m = Inr st"
  shows "generate_solid_heart_points sh mask_array n w h s m =
    Inr (selected_points st @
         take (nat (n - int (length (selected_points st))))
           (map (\<lambda>(y, x). (x, y))
              (filter (inside_canvas w h s) (sh 1 (heart_pixels_of mask_array)))))"
  by (simp add: generate_solid_heart_points_def assms fallback_loop_eq)

text \<open>
  Claim C5. The returned list is the list selected by the primary phase followed by the
  points the fallback loop appended. Each appended point \<open>(x, y)\<close> satisfies
  \<open>0 < x < width - img_size\<close> and \<open>0 < y < height - img_size\<close>, and the appended points
  are exactly the first missing-count many candidates of the second shuffle that pass
  this test: no overlap is looked at.
\<close>

theorem fallback_containment:
  "\<exists>st extra. primary_phase sh mask_array n s m = Inr st \<and>
     generate_solid_heart_points sh mask_array n w h s m = Inr (selected_points st @ extra) \<and>
     (\<forall>(x, y) \<in> set extra. 0 < x \<and> x < w - s \<and> 0 < y \<and> y < h - s) \<and>
     extra = take (nat (n - int (length (selected_points st))))
               (map (\<lambda>(y, x). (x, y))
                  (filter (inside_canvas w h s) (sh 1 (heart_pixels_of mask_array))))"
proof -
  obtain st where p: "primary_phase sh mask_array n s m = Inr st"
    using primary_phase_total by blast
  define extra where "extra = take (nat (n - int (length (selected_points st))))
       (map (\<lambda>(y, x). (x, y)) (filter (inside_canvas w h s) (sh 1 (heart_pixels_of mask_array))))"
  have g: "generate_solid_heart_points sh mask_array n w h s m = Inr (selected_points st @ extra)"
    unfolding extra_def by (rule generate_eq [OF p])
  have "\<forall>(x, y) \<in> set extra. 0 < x \<and> x < w - s \<and> 0 < y \<and> y < h - s"
  proof (clarify)
    fix x y assume "(x, y) \<in> set extra"
    then have "(x, y) \<in> set (map (\<lambda>(y, x). (x, y))
        (filter (inside_canvas w h s) (sh 1 (heart_pixels_of mask_array))))"
      unfolding extra_def by (rule in_set_takeD)
    then have "inside_canvas w h s (y, x)" by auto
    then show "0 < x \<and> x < w - s \<and> 0 < y \<and> y < h - s" by simp
  qed
  with p g extra_def show ?thesis by blast
qed

theorem fallback_containment_witness:
  "primary_phase keep_order [[0, 0, 0, 0], [0, 255, 255, 0], [0, 255, 0, 0], [0, 0, 0, 0]] 3 2 20 =
     Inr \<lparr>selected_points = [(1, 1)], placed_rectangles = [(0, 0, 2, 2)],
          heart_pixels = [(1, 1), (1, 2), (2, 1)], tested = [(1, 1), (1, 2), (2, 1)]\<rparr> \<and>
   generate_solid_heart_points keep_order
     [[0, 0, 0, 0], [0, 255, 255, 0], [0, 255, 0, 0], [0, 0, 0, 0]] 3 4 4 2 20 =
     Inr ([(1, 1)] @ [(1, 1)]) \<and>
   (0::int) < 1 \<and> (1::int) < 4 - 2"
  using fallback_containment [of keep_order
      "[[0, 0, 0, 0], [0, 255, 255, 0], [0, 255, 0, 0], [0, 0, 0, 0]]" 3 2 20 4 4]
  by (simp add: run_simps)

lemma is_shuffle_Nil: "is_shuffle sh \<Longrightarrow> sh k [] = []"
  unfolding is_shuffle_def by (metis mset_zero_iff)

text \<open>
  Claim C6. On a mask without a true pixel, for every requested count, the primary phase
  selects nothing, the fallback loop appends nothing, and the selection returns the empty
  list without an error.
\<close>

theorem all_false_mask_empty:
  assumes "is_shuffle sh" and "true_pixels mask_array = 0"
  shows "primary_phase sh mask_array n s m =
           Inr \<lparr>selected_points = [], placed_rectangles = [], heart_pixels = [], tested = []\<rparr> \<and>
         generate_solid_heart_points sh mask_array n w h s m = Inr []"
proof -
  from assms(2) have "heart_pixels_of mask_array = []"
    using length_heart_pixels_of [of mask_array] by simp
  then have e: "sh k (heart_pixels_of mask_array) = []" for k
    using is_shuffle_Nil [OF assms(1)] by simp
  have p: "primary_phase sh mask_array n s m =
           Inr \<lparr>selected_points = [], placed_rectangles = [], heart_pixels = [], tested = []\<rparr>"
    by (simp add: primary_phase_def e)
  then show ?thesis
    by (simp add: generate_solid_heart_points_def e)
qed

theorem all_false_mask_empty_witness:
  "is_shuffle keep_order \<and> true_pixels [[0, 0, 0], [0, 0, 0]] = 0 \<and>
   generate_solid_heart_points keep_order [[0, 0, 0], [0, 0, 0]] 7 3 2 1 20 = Inr []"
proof -
  have s: "is_shuffle keep_order" by (simp add: is_shuffle_def keep_order_def)
  have t: "true_pixels [[0, 0, 0], [0, 0, 0]] = 0" by (simp add: true_pixels_def)
  from all_false_mask_empty [OF s t, of 7 1 20 3 2] s t show ?thesis by simp
qed

text \<open>
  Claim C7 as stated (the number of returned points is at most the number of true pixels)
  fails: the fallback loop starts again from all true pixels, so a pixel selected by the
  primary phase is appended a second time. A mask with one true pixel and a request of
  100000 points returns two points.
\<close>

theorem fallback_repeats_counterexample:
  "generate_solid_heart_points keep_order
     [[0, 0, 0, 0], [0, 255, 0, 0], [0, 0, 0, 0], [0, 0, 0, 0]] 100000 4 4 2 20 =
     Inr [(1, 1), (1, 1)] \<and>
   true_pixels [[0, 0, 0, 0], [0, 255, 0, 0], [0, 0, 0, 0], [0, 0, 0, 0]] = 1 \<and>
   \<not> length [(1, 1), (1, 1) :: pixel] \<le>
       true_pixels [[0, 0, 0, 0], [0, 255, 0, 0], [0, 0, 0, 0], [0, 0, 0, 0]]"
  by (simp add: run_simps true_pixels_def)

text \<open>
  Claim C7, amended. The primary phase selects at most as many points as the mask has
  true pixels, the fallback loop appends at most as many points as there are true pixels
  that pass its containment test, and so the returned list has at most twice as many
  points as the mask has true pixels, for every requested count.
\<close>

theorem generate_twice_true_pixels:
  assumes "is_shuffle sh"
  shows "\<exists>st pts. primary_phase sh mask_array n s m = Inr st \<and>
     generate_solid_heart_points sh mask_array n w h s m = Inr pts \<and>
     length (selected_points st) \<le> true_pixels mask_array \<and>
     length pts \<le> length (selected_points st) +
                   length (filter (inside_canvas w h s) (heart_pixels_of mask_array)) \<and>
     length pts \<le> 2 * true_pixels mask_array"
proof -
  obtain st where p: "primary_phase sh mask_array n s m = Inr st"
    using primary_phase_total by blast
  from p obtain md st0 where l: "primary_loop n s m md st0 (sh 0 (heart_pixels_of mask_array)) = Inr st"
    and st0: "selected_points st0 = []"
    by (simp add: primary_phase_def Let_def)
  from primary_loop_bounds [OF l]
  have a: "length (selected_points st) \<le> true_pixels mask_array"
    by (simp add: st0 is_shuffle_length [OF assms] length_heart_pixels_of)
  define pts where "pts = selected_points st @
         take (nat (n - int (length (selected_points st))))
           (map (\<lambda>(y, x). (x, y))
              (filter (inside_canvas w h s) (sh 1 (heart_pixels_of mask_array))))"
  have g: "generate_solid_heart_points sh mask_array n w h s m = Inr pts"
    unfolding pts_def by (rule generate_eq [OF p])
  have b: "length pts \<le> length (selected_points st) +
                   length (filter (inside_canvas w h s) (heart_pixels_of mask_array))"
    by (simp add: pts_def is_shuffle_filter_length [OF assms])
  have "length (filter (inside_canvas w h s) (heart_pixels_of mask_array)) \<le> true_pixels mask_array"
    using length_filter_le [of "inside_canvas w h s" "heart_pixels_of mask_array"]
    by (simp add: length_heart_pixels_of)
  with a b have "length pts \<le> 2 * true_pixels mask_array" by linarith
  with p g a b show ?thesis by blast
qed

theorem generate_twice_true_pixels_witness:
  "is_shuffle keep_order \<and>
   generate_solid_heart_points keep_order
     [[0, 0, 0, 0], [0, 255, 0, 0], [0, 0, 0, 0], [0, 0, 0, 0]] 100000 4 4 2 20 =
     Inr [(1, 1), (1, 1)] \<and>
   length [(1, 1), (1, 1) :: pixel] \<le>
     2 * true_pixels [[0, 0, 0, 0], [0, 255, 0, 0], [0, 0, 0, 0], [0, 0, 0, 0]]"
proof -
  have s: "is_shuffle keep_order" by (simp add: is_shuffle_def keep_order_def)
  from generate_twice_true_pixels [OF s, of
      "[[0, 0, 0, 0], [0, 255, 0, 0], [0, 0, 0, 0], [0, 0, 0, 0]]" 100000 2 20 4 4] s
  show ?thesis by (simp add: run_simps true_pixels_def)
qed

text \<open>
  Claim C4 against the code. With \<^verbatim>\<open>img_size = 6\<close> and
  \<^verbatim>\<open>max_overlap_percent = 20\<close> the pruning radius is \<open>0.3 * 3.84 = 1.152\<close>. The
  fifth acceptance, at \<open>(y, x) = (0, 24)\<close>, removes the pixel \<open>(0, 25)\<close> (at distance 1)
  from \<open>heart_pixels\<close>; the loop, which iterates over the array it started with, tests
  \<open>(0, 25)\<close> next all the same.
\<close>

theorem pruned_pixel_still_tested:
  "primary_phase keep_order
     [[255, 0, 0, 0, 0, 0, 255, 0, 0, 0, 0, 0, 255, 0, 0, 0, 0, 0, 255, 0, 0, 0, 0, 0, 255, 255]]
     6 6 20 =
   Inr \<lparr>selected_points = [(0, 0), (6, 0), (12, 0), (18, 0), (24, 0)],
        placed_rectangles = [(- 3, - 3, 3, 3), (3, - 3, 9, 3), (9, - 3, 15, 3),
                             (15, - 3, 21, 3), (21, - 3, 27, 3)],
        heart_pixels = [(0, 0), (0, 6), (0, 12), (0, 18)],
        tested = [(0, 0), (0, 6), (0, 12), (0, 18), (0, 24), (0, 25)]\<rparr> \<and>
   sqrt (real_of_int ((0 - 0)\<^sup>2 + (25 - 24)\<^sup>2)) < 0.3 * (real_of_int 6 * (1 - 20 / 100) * 0.8)"
proof -
  have "sqrt (real_of_int ((0 - 0)\<^sup>2 + (25 - 24)\<^sup>2)) = 1" by simp
  then have "sqrt (real_of_int ((0 - 0)\<^sup>2 + (25 - 24)\<^sup>2)) < 0.3 * (real_of_int 6 * (1 - 20 / 100) * 0.8)"
    by simp
  then show ?thesis by (simp add: run_simps)
qed

section \<open>Properties in machine arithmetic\<close>

subsection \<open>Rounding to binary64\<close>

lemma wrap64_id: "int64_range v \<Longrightarrow> wrap64 v = v"
  unfolding int64_range_def wrap64_def by (simp add: mod_pos_pos_trivial)

lemma round_half_even_of_int: "round_half_even (real_of_int n) = n"
  by (simp add: round_half_even_def Let_def)

lemma floor_log2_eq:
  assumes "2 powi e \<le> \<bar>x\<bar>" "\<bar>x\<bar> < 2 powi (e + 1)"
  shows "\<lfloor>log 2 \<bar>x\<bar>\<rfloor> = e"
proof -
  have p: "0 < \<bar>x\<bar>" using assms(1) by (smt (verit) zero_less_power_int)
  have a: "(2::real) powr (real_of_int e) = 2 powi e"
    by (rule powr_real_of_int') simp_all
  have b: "(2::real) powr (real_of_int (e + 1)) = 2 powi (e + 1)"
    by (rule powr_real_of_int') simp_all
  have "2 powr (real_of_int e) \<le> \<bar>x\<bar>" "\<bar>x\<bar> < 2 powr (real_of_int (e + 1))"
    unfolding a b using assms by simp_all
  then show ?thesis using floor_log_eq_powr_iff [OF p, of 2 e] by simp
qed

lemma round64_eval:
  assumes "2 powi e \<le> \<bar>x\<bar>" "\<bar>x\<bar> < 2 powi (e + 1)" "- 1022 \<le> e"
  shows "round64 x = real_of_int (round_half_even (x / 2 powi (e - 52))) * 2 powi (e - 52)"
proof -
  have p: "0 < \<bar>x\<bar>" using assms(1) by (smt (verit) zero_less_power_int)
  have "float_exponent x = e"
    using floor_log2_eq [OF assms(1,2)] assms(3) by (simp add: float_exponent_def)
  with p show ?thesis by (simp add: round64_def Let_def)
qed


lemma round64_0: "round64 0 = 0"
  by (simp add: round64_def)

lemma round64_1: "round64 1 = 1"
  using round64_eval [of 0 1] by (simp add: round_half_even_def Let_def power_int_minus)

lemma round64_100: "round64 100 = 100"
  using round64_eval [of 6 100] by (simp add: round_half_even_def Let_def power_int_minus)

lemma round64_of_int:
  assumes "\<bar>k\<bar> < 2 ^ 53"
  shows "round64 (real_of_int k) = real_of_int k"
proof (cases "k = 0")
  case True
  then show ?thesis by (simp add: round64_def)
next
  case False
  define e where "e = \<lfloor>log 2 \<bar>real_of_int k\<bar>\<rfloor>"
  from False have "1 \<le> \<bar>k\<bar>" by simp
  then have k1: "1 \<le> \<bar>real_of_int k\<bar>" by (metis of_int_abs of_int_1_le_iff)
  then have "0 \<le> log 2 \<bar>real_of_int k\<bar>" by simp
  then have e0: "0 \<le> e" by (simp add: e_def)
  have "real_of_int \<bar>k\<bar> < real_of_int (2 ^ 53)" using assms by (simp only: of_int_less_iff)
  then have k2: "\<bar>real_of_int k\<bar> < 2 powr 53" by simp
  have "log 2 \<bar>real_of_int k\<bar> < 53"
    using k1 k2 by (subst log_less_iff) simp_all
  then have "e < 53" unfolding e_def by (simp add: floor_less_iff)
  then have e52: "e \<le> 52" by simp
  define n where "n = nat (52 - e)"
  have q: "(2::real) powi (e - 52) = 1 / 2 ^ n"
    using e52 by (simp add: power_int_def n_def field_simps)
  have fe: "float_exponent (real_of_int k) = e"
    using e0 by (simp add: float_exponent_def e_def)
  have "real_of_int k / (1 / 2 ^ n) = real_of_int (k * 2 ^ n)" by simp
  then have "round_half_even (real_of_int k / (1 / 2 ^ n)) = k * 2 ^ n"
    by (simp only: round_half_even_of_int)
  then show ?thesis
    using False by (simp add: round64_def Let_def fe q)
qed


subsection \<open>The overlap percentage as numpy computes it\<close>

lemma np_area_exact:
  assumes "\<bar>u\<bar> \<le> 2 ^ 26" "\<bar>v\<bar> \<le> 2 ^ 26"
  shows "wrap64 (wrap64 u * wrap64 v) = u * v" and "\<bar>u * v\<bar> < 2 ^ 53"
proof -
  have "\<bar>u\<bar> * \<bar>v\<bar> \<le> 2 ^ 26 * 2 ^ 26"
    using assms by (intro mult_mono) simp_all
  then have p: "\<bar>u * v\<bar> \<le> 2 ^ 52" by (simp add: abs_mult)
  then show "\<bar>u * v\<bar> < 2 ^ 53" by simp
  have "int64_range u" "int64_range v" using assms by (auto simp: int64_range_def abs_le_iff)
  moreover have "int64_range (u * v)" using p by (auto simp: int64_range_def abs_le_iff)
  ultimately show "wrap64 (wrap64 u * wrap64 v) = u * v" by (simp add: wrap64_id)
qed

lemma np_calculate_overlap_area_small:
  assumes "small (a0, a1, a2, a3)" "small (b0, b1, b2, b3)"
  shows "np_calculate_overlap_area (a0, a1, a2, a3) (b0, b1, b2, b3) =
     Inr (if min a2 b2 < max a0 b0 \<or> min a3 b3 < max a1 b1 then 0
          else if 0 < (a2 - a0) * (a3 - a1) \<and> 0 < (b2 - b0) * (b3 - b1)
          then round64 (round64 (real_of_int ((min a2 b2 - max a0 b0) * (min a3 b3 - max a1 b1)) /
                 real_of_int (min ((a2 - a0) * (a3 - a1)) ((b2 - b0) * (b3 - b1)))) * 100)
          else 0)"
proof -
  have s: "\<bar>a0\<bar> \<le> 2 ^ 25" "\<bar>a1\<bar> \<le> 2 ^ 25" "\<bar>a2\<bar> \<le> 2 ^ 25" "\<bar>a3\<bar> \<le> 2 ^ 25"
    "\<bar>b0\<bar> \<le> 2 ^ 25" "\<bar>b1\<bar> \<le> 2 ^ 25" "\<bar>b2\<bar> \<le> 2 ^ 25" "\<bar>b3\<bar> \<le> 2 ^ 25"
    using assms by simp_all
  have da: "\<bar>a2 - a0\<bar> \<le> 2 ^ 26" "\<bar>a3 - a1\<bar> \<le> 2 ^ 26"
    using s by (simp_all add: abs_le_iff)
  have db: "\<bar>b2 - b0\<bar> \<le> 2 ^ 26" "\<bar>b3 - b1\<bar> \<le> 2 ^ 26"
    using s by (simp_all add: abs_le_iff)
  have dx: "\<bar>min a2 b2 - max a0 b0\<bar> \<le> 2 ^ 26" "\<bar>min a3 b3 - max a1 b1\<bar> \<le> 2 ^ 26"
    using s by (simp_all add: abs_le_iff min_def max_def)
  note A = np_area_exact [OF da]
  note B = np_area_exact [OF db]
  note X = np_area_exact [OF dx]
  have m: "\<bar>min ((a2 - a0) * (a3 - a1)) ((b2 - b0) * (b3 - b1))\<bar> < 2 ^ 53"
    using A(2) B(2) by (simp add: min_def)
  show ?thesis
    unfolding np_calculate_overlap_area.simps Let_def A(1) B(1) X(1) np_true_divide_def
      round64_of_int [OF X(2)] round64_of_int [OF m]
    by simp
qed

lemma np_calculate_overlap_area_sym:
  "np_calculate_overlap_area r1 r2 = np_calculate_overlap_area r2 r1"
  by (cases r1; cases r2) (simp add: Let_def max.commute min.commute)



lemma self_quotient: "0 < k \<Longrightarrow> real_of_int k / real_of_int k = 1"
  by simp

text \<open>
  Claim C3, amended. Take rectangles of positive width and height whose coordinates are
  at most \<open>2^25\<close> in magnitude (so that no 64-bit product wraps and every area is a
  binary64 number; Python integers and \<^verbatim>\<open>int64\<close> scalars then compute alike).
  \<^verbatim>\<open>calculate_overlap_area\<close> returns the binary64 value of the formula: the
  intersection area divided by the smaller area, rounded to binary64, then multiplied by
  100 and rounded again. That is 0 when the rectangles share no area, and exactly 100 for
  identical rectangles and for a rectangle that contains the other; in between it can
  differ from the exact quotient in the last bit (areas 7 and 100 give 7 + 2^-50, which
  Python prints as 7.000000000000001). For all rectangles, disjoint ones give 0 and the
  function is symmetric in its arguments.
\<close>

theorem np_calculate_overlap_area_percentage:
  "(small r1 \<and> small r2 \<and> proper r1 \<and> proper r2 \<longrightarrow>
      np_calculate_overlap_area r1 r2 =
        Inr (round64 (round64 (real_of_int (intersection_area r1 r2) /
                               real_of_int (min (area r1) (area r2))) * 100))) \<and>
   (disjoint r1 r2 \<longrightarrow> np_calculate_overlap_area r1 r2 = Inr 0) \<and>
   (small r1 \<and> proper r1 \<longrightarrow> np_calculate_overlap_area r1 r1 = Inr 100) \<and>
   (small r1 \<and> small r2 \<and> proper r2 \<and> contains r1 r2 \<longrightarrow>
      np_calculate_overlap_area r1 r2 = Inr 100) \<and>
   np_calculate_overlap_area r1 r2 = np_calculate_overlap_area r2 r1"
proof -
  obtain a0 a1 a2 a3 where r1: "r1 = (a0, a1, a2, a3)" by (cases r1)
  obtain b0 b1 b2 b3 where r2: "r2 = (b0, b1, b2, b3)" by (cases r2)
  have f: "np_calculate_overlap_area r1 r2 =
        Inr (round64 (round64 (real_of_int (intersection_area r1 r2) /
                               real_of_int (min (area r1) (area r2))) * 100))"
    if h: "small r1 \<and> small r2 \<and> proper r1 \<and> proper r2"
  proof -
    from h have sm: "small (a0, a1, a2, a3)" "small (b0, b1, b2, b3)" by (simp_all add: r1 r2)
    from h have p: "0 < (a2 - a0) * (a3 - a1)" "0 < (b2 - b0) * (b3 - b1)"
      by (simp_all add: r1 r2)
    show ?thesis
    proof (cases "min a2 b2 < max a0 b0 \<or> min a3 b3 < max a1 b1")
      case True
      then have "intersection_area r1 r2 = 0" unfolding r1 r2 intersection_area.simps by auto
      with True show ?thesis
        unfolding r1 r2 np_calculate_overlap_area_small [OF sm]
        by (simp add: round64_0 del: intersection_area.simps)
    next
      case False
      then have "max 0 (min a2 b2 - max a0 b0) = min a2 b2 - max a0 b0"
          "max 0 (min a3 b3 - max a1 b1) = min a3 b3 - max a1 b1" by linarith+
      then have "intersection_area r1 r2 = (min a2 b2 - max a0 b0) * (min a3 b3 - max a1 b1)"
        unfolding r1 r2 intersection_area.simps by simp
      with False p show ?thesis
        unfolding r1 r2 np_calculate_overlap_area_small [OF sm]
        by (simp del: intersection_area.simps)
    qed
  qed
  have d: "np_calculate_overlap_area r1 r2 = Inr 0" if "disjoint r1 r2"
  proof -
    from that have "min a2 b2 < max a0 b0 \<or> min a3 b3 < max a1 b1"
      unfolding r1 r2 disjoint.simps by linarith
    then show ?thesis by (simp add: r1 r2)
  qed
  have i: "np_calculate_overlap_area r1 r1 = Inr 100" if h: "small r1 \<and> proper r1"
  proof -
    from h have sm: "small (a0, a1, a2, a3)" by (simp add: r1)
    from h have p: "0 < (a2 - a0) * (a3 - a1)" by (simp add: r1)
    then have "real_of_int ((a2 - a0) * (a3 - a1)) / real_of_int ((a2 - a0) * (a3 - a1)) = 1"
      by (rule self_quotient)
    with h p show ?thesis
      unfolding r1 np_calculate_overlap_area_small [OF sm sm]
      by (simp add: round64_1 round64_100)
  qed
  have c: "np_calculate_overlap_area r1 r2 = Inr 100"
    if h: "small r1 \<and> small r2 \<and> proper r2 \<and> contains r1 r2"
  proof -
    from h have sm: "small (a0, a1, a2, a3)" "small (b0, b1, b2, b3)" by (simp_all add: r1 r2)
    from h have g: "a0 \<le> b0" "a1 \<le> b1" "b2 \<le> a2" "b3 \<le> a3" "b0 < b2" "b1 < b3"
      by (simp_all add: r1 r2)
    then have m: "min ((a2 - a0) * (a3 - a1)) ((b2 - b0) * (b3 - b1)) = (b2 - b0) * (b3 - b1)"
      using area_mono [OF g] by simp
    have p: "0 < (b2 - b0) * (b3 - b1)" using g by simp
    have x: "max a0 b0 = b0" "max a1 b1 = b1" "min a2 b2 = b2" "min a3 b3 = b3"
      using g by simp_all
    have q: "0 < (a2 - a0) * (a3 - a1)" using p area_mono [OF g] by linarith
    from p have "real_of_int ((b2 - b0) * (b3 - b1)) / real_of_int ((b2 - b0) * (b3 - b1)) = 1"
      by (rule self_quotient)
    then show ?thesis using p q g
      unfolding r1 r2 np_calculate_overlap_area_small [OF sm] m x
      by (simp add: round64_1 round64_100)
  qed
  show ?thesis using f d i c np_calculate_overlap_area_sym by blast
qed

lemma round64_7_percent: "round64 (round64 (7 / 100) * 100) = 7 + 1 / 2 ^ 50"
proof -
  have a: "round64 (7 / 100) = 5044031582654956 / 2 ^ 56"
    using round64_eval [of "- 4" "7 / 100"]
    by (simp add: round_half_even_def Let_def power_int_minus)
  have b: "round64 (5044031582654956 / 2 ^ 56 * 100) = 7 + 1 / 2 ^ 50"
    using round64_eval [of 2 "5044031582654956 / 2 ^ 56 * 100"]
    by (simp add: round_half_even_def Let_def power_int_minus)
  show ?thesis unfolding a b ..
qed

theorem np_calculate_overlap_area_percentage_witness:
  "small (0, 0, 10, 10) \<and> small (3, 9, 13, 19) \<and> proper (0, 0, 10, 10) \<and> proper (3, 9, 13, 19) \<and>
   intersection_area (0, 0, 10, 10) (3, 9, 13, 19) = 7 \<and>
   min (area (0, 0, 10, 10)) (area (3, 9, 13, 19)) = 100 \<and>
   np_calculate_overlap_area (0, 0, 10, 10) (3, 9, 13, 19) = Inr (7 + 1 / 2 ^ 50) \<and>
   np_calculate_overlap_area (3, 9, 13, 19) (0, 0, 10, 10) = Inr (7 + 1 / 2 ^ 50) \<and>
   np_calculate_overlap_area (0, 0, 10, 10) (0, 0, 10, 10) = Inr 100 \<and>
   contains (0, 0, 10, 10) (2, 3, 5, 9) \<and>
   np_calculate_overlap_area (0, 0, 10, 10) (2, 3, 5, 9) = Inr 100 \<and>
   disjoint (0, 0, 10, 10) (11, 0, 21, 10) \<and>
   np_calculate_overlap_area (0, 0, 10, 10) (11, 0, 21, 10) = Inr 0"
proof -
  have s: "small (0, 0, 10, 10)" "small (3, 9, 13, 19)" "small (2, 3, 5, 9)" by simp_all
  have i: "intersection_area (0, 0, 10, 10) (3, 9, 13, 19) = 7"
    "min (area (0, 0, 10, 10)) (area (3, 9, 13, 19)) = 100" by simp_all
  from np_calculate_overlap_area_percentage [of "(0, 0, 10, 10)" "(3, 9, 13, 19)"] s
  have a: "np_calculate_overlap_area (0, 0, 10, 10) (3, 9, 13, 19) = Inr (7 + 1 / 2 ^ 50)"
    "np_calculate_overlap_area (0, 0, 10, 10) (0, 0, 10, 10) = Inr 100"
    unfolding i by (simp_all add: round64_7_percent del: np_calculate_overlap_area.simps small.simps)
  have a': "np_calculate_overlap_area (3, 9, 13, 19) (0, 0, 10, 10) = Inr (7 + 1 / 2 ^ 50)"
    using a(1) np_calculate_overlap_area_sym [of "(3, 9, 13, 19)" "(0, 0, 10, 10)"]
    by (simp only:)
  from np_calculate_overlap_area_percentage [of "(0, 0, 10, 10)" "(2, 3, 5, 9)"] s
  have b: "np_calculate_overlap_area (0, 0, 10, 10) (2, 3, 5, 9) = Inr 100"
    by (simp add: round64_1 round64_100 del: np_calculate_overlap_area.simps small.simps)
  from np_calculate_overlap_area_percentage [of "(0, 0, 10, 10)" "(11, 0, 21, 10)"]
  have c: "np_calculate_overlap_area (0, 0, 10, 10) (11, 0, 21, 10) = Inr 0"
    by (simp add: round64_0 del: np_calculate_overlap_area.simps small.simps)
  show ?thesis using s i a a' b c by simp
qed


subsection \<open>The selection loops in machine arithmetic\<close>













end
